theory Spec2Isabelle
  imports Main "HOL-Library.Sublist" "HOL-Library.AList"
begin

section \<open>Python values, exceptions and calls into libraries\<close>

text \<open>
  The repository's sources are three notebooks (quick start, YOLOv12, RF-DETR) and one
  continuous-integration workflow. A notebook cell is a short Python script whose work is
  done by calls into libraries. A call is modelled by its callee, its positional
  arguments and its keyword arguments, in the order the source writes them; a float
  literal keeps the text the source gives it.
\<close>

datatype pyval = PStr string | PInt int | PBool bool | PFloat string

record call =
  callee :: string
  positional :: "pyval list"
  kwargs :: "(string \<times> pyval) list"

text \<open>
  An exception is a value: \<open>NameError\<close> is raised by the interpreter when an unbound
  name is read, \<open>RuntimeError\<close> by a strict \<open>load_state_dict\<close>, and \<open>Raised e\<close> is any
  other exception that a library raises, \<open>e\<close> being its text.
\<close>

datatype pyerr = NameError string | RuntimeError string | Raised string

section \<open>The quick-start fine-tuning cell\<close>

subsection \<open>Dataset and data loader\<close>

text \<open>
  \<^verbatim>\<open>dataset = datasets.ImageFolder(root="my_data_dir", transform=transform)\<close>
  gives a dataset with its class names and its samples (image, class index).
\<close>

record 'x image_folder =
  classes :: "string list"
  samples :: "('x \<times> nat) list"

text \<open>
  \<^verbatim>\<open>DataLoader(dataset, batch_size=16, shuffle=True, drop_last=True)\<close>:
  the batch sampler collects the indices it is given into batches of \<open>batch_size\<close>, and
  yields a last, shorter batch only when \<open>drop_last\<close> is off.
\<close>

fun batch_sampler :: "nat \<Rightarrow> bool \<Rightarrow> 'a list \<Rightarrow> 'a list \<Rightarrow> 'a list list" where
  "batch_sampler batch_size drop_last batch [] =
     (if batch \<noteq> [] \<and> \<not> drop_last then [batch] else [])"
| "batch_sampler batch_size drop_last batch (x # xs) =
     (if length (batch @ [x]) = batch_size
      then (batch @ [x]) # batch_sampler batch_size drop_last [] xs
      else batch_sampler batch_size drop_last (batch @ [x]) xs)"

text \<open>
  With \<open>shuffle=True\<close> every pass over the loader draws a new order of the samples; the
  order drawn for a pass is the parameter \<open>draw\<close>.
\<close>

definition dataloader :: "(nat \<Rightarrow> 's list \<Rightarrow> 's list) \<Rightarrow> 's list \<Rightarrow> nat \<Rightarrow> 's list list" where
  "dataloader draw dataset epoch = batch_sampler 16 True [] (draw epoch dataset)"

subsection \<open>The model and its weights\<close>

record 't linear =
  in_features :: nat
  out_features :: nat
  weight :: 't
  bias :: 't

text \<open>
  A ResNet is its final classification layer \<open>fc\<close> and the entries of its state
  dictionary that belong to the other layers, under their keys.
\<close>

record 't resnet =
  backbone :: "(string \<times> 't) list"
  fc :: "'t linear"

definition state_dict :: "'t resnet \<Rightarrow> (string \<times> 't) list" where
  "state_dict m = backbone m @ [(''fc.weight'', weight (fc m)), (''fc.bias'', bias (fc m))]"

text \<open>
  \<open>nn.Linear(in_features, out_features)\<close> draws its weight and bias anew; the draw is
  the parameter \<open>fresh\<close>.
\<close>

definition nn_Linear :: "(nat \<Rightarrow> nat \<Rightarrow> 't \<times> 't) \<Rightarrow> nat \<Rightarrow> nat \<Rightarrow> 't linear" where
  "nn_Linear fresh n_in n_out =
     \<lparr>in_features = n_in, out_features = n_out,
      weight = fst (fresh n_in n_out), bias = snd (fresh n_in n_out)\<rparr>"

text \<open>
  \<open>model.load_state_dict(sd)\<close> is strict by default: the keys of \<open>sd\<close> must be the
  keys of the model's own state dictionary, and every tensor must fit the one it
  replaces (\<open>fits old new\<close>: the same shape); otherwise it raises. On success every
  entry of the model takes the value \<open>sd\<close> has under its key. The layers themselves,
  and so \<open>fc.in_features\<close>, stay.
\<close>

definition entry :: "(string \<times> 't) list \<Rightarrow> string \<Rightarrow> 't \<Rightarrow> 't" where
  "entry sd k old = (case map_of sd k of None \<Rightarrow> old | Some v \<Rightarrow> v)"

definition loadable :: "('t \<Rightarrow> 't \<Rightarrow> bool) \<Rightarrow> 't resnet \<Rightarrow> (string \<times> 't) list \<Rightarrow> bool" where
  "loadable fits m sd =
     (set (map fst sd) = set (map fst (state_dict m)) \<and>
      list_all (\<lambda>(k, old). fits old (entry sd k old)) (state_dict m))"

definition load_state_dict ::
  "('t \<Rightarrow> 't \<Rightarrow> bool) \<Rightarrow> 't resnet \<Rightarrow> (string \<times> 't) list \<Rightarrow> pyerr + 't resnet" where
  "load_state_dict fits m sd =
     (if loadable fits m sd
      then Inr \<lparr>backbone = map (\<lambda>(k, old). (k, entry sd k old)) (backbone m),
                fc = (fc m)\<lparr>weight := entry sd ''fc.weight'' (weight (fc m)),
                              bias := entry sd ''fc.bias'' (bias (fc m))\<rparr>\<rparr>
      else Inl (RuntimeError ''Error(s) in loading state_dict for ResNet''))"

text \<open>
  What the cell takes from PyTorch and torchvision: the dataset found under a root
  directory, the state dictionary read from a file, a newly constructed ResNet-18, the
  draw of a new linear layer, the shape test of \<open>load_state_dict\<close>, the order a
  shuffled pass draws, the optimiser made for a model, and the two halves of a training
  step: the forward pass with its loss, and the backward pass with the optimiser's
  update. Each call that can raise returns a sum.
\<close>

record ('x, 't, 'o, 'l) torch =
  ImageFolder :: "string \<Rightarrow> pyerr + 'x image_folder"
  torch_load :: "string \<Rightarrow> pyerr + (string \<times> 't) list"
  resnet18 :: "'t resnet"
  fresh_linear :: "nat \<Rightarrow> nat \<Rightarrow> 't \<times> 't"
  same_shape :: "'t \<Rightarrow> 't \<Rightarrow> bool"
  shuffled :: "nat \<Rightarrow> ('x \<times> nat) list \<Rightarrow> ('x \<times> nat) list"
  Adam :: "'t resnet \<Rightarrow> pyval \<Rightarrow> 'o"
  criterion :: "'t resnet \<Rightarrow> ('x \<times> nat) list \<Rightarrow> pyerr + 'l"
  backward_step :: "'t resnet \<times> 'o \<Rightarrow> ('x \<times> nat) list \<Rightarrow> 'l \<Rightarrow> pyerr + 't resnet \<times> 'o"

text \<open>
  \<^verbatim>\<open>
  model = models.resnet18()
  model.load_state_dict(
      torch.load("out/my_experiment/exported_models/exported_last.pt", weights_only=True)
  )
  model.fc = nn.Linear(model.fc.in_features, len(dataset.classes))
  \<close>
\<close>

definition exported_model_path :: string where
  "exported_model_path = ''out/my_experiment/exported_models/exported_last.pt''"

definition prepare_model ::
  "('x, 't, 'o, 'l) torch \<Rightarrow> 'x image_folder \<Rightarrow> pyerr + 't resnet" where
  "prepare_model T dataset =
     (case torch_load T exported_model_path of
        Inl e \<Rightarrow> Inl e
      | Inr sd \<Rightarrow>
          (case load_state_dict (same_shape T) (resnet18 T) sd of
             Inl e \<Rightarrow> Inl e
           | Inr m \<Rightarrow>
               Inr (m\<lparr>fc := nn_Linear (fresh_linear T) (in_features (fc m))
                                (length (classes dataset))\<rparr>)))"

subsection \<open>The training loop\<close>

text \<open>
  The names the loop binds: \<open>model\<close> and \<open>optimizer\<close> are bound before it,
  \<open>running_loss\<close> and \<open>loss\<close> are bound by it (\<open>None\<close>: the name is unbound), and
  \<open>printed\<close> collects the lines of the final \<open>print\<close> of each epoch: the epoch
  number shown, the number of epochs, and the loss whose \<open>item()\<close> is formatted.
\<close>

record ('t, 'o, 'l) names =
  model :: "'t resnet"
  optimizer :: 'o
  running_loss :: "pyval option"
  loss :: "'l option"
  printed :: "(nat \<times> nat \<times> 'l) list"

text \<open>
  \<^verbatim>\<open>
  for inputs, labels in progress_bar:
      optimizer.zero_grad()
      outputs = model(inputs.to(device))
      loss = criterion(outputs, labels.to(device))
      loss.backward()
      optimizer.step()
      progress_bar.set_postfix(loss=f"{loss.item():.4f}")
  \<close>
\<close>

definition train_step ::
  "('x, 't, 'o, 'l) torch \<Rightarrow> ('x \<times> nat) list \<Rightarrow> ('t, 'o, 'l) names
   \<Rightarrow> pyerr + ('t, 'o, 'l) names" where
  "train_step T b v =
     (case criterion T (model v) b of
        Inl e \<Rightarrow> Inl e
      | Inr l \<Rightarrow>
          (case backward_step T (model v, optimizer v) b l of
             Inl e \<Rightarrow> Inl e
           | Inr (m, opt) \<Rightarrow> Inr (v\<lparr>loss := Some l, model := m, optimizer := opt\<rparr>)))"

fun train_batches ::
  "('x, 't, 'o, 'l) torch \<Rightarrow> ('x \<times> nat) list list \<Rightarrow> ('t, 'o, 'l) names
   \<Rightarrow> pyerr + ('t, 'o, 'l) names" where
  "train_batches T [] v = Inr v"
| "train_batches T (b # bs) v =
     (case train_step T b v of
        Inl e \<Rightarrow> Inl e
      | Inr v' \<Rightarrow> train_batches T bs v')"

text \<open>
  \<^verbatim>\<open>
  for epoch in range(num_epochs):
      running_loss = 0.0
      progress_bar = tqdm.tqdm(dataloader, desc=f"Epoch {epoch + 1}/{num_epochs}")
      for inputs, labels in progress_bar:
          ...
      print(f"Epoch [{epoch + 1}/{num_epochs}], Loss: {loss.item():.4f}")
  \<close>
\<close>

definition run_epoch ::
  "('x, 't, 'o, 'l) torch \<Rightarrow> 'x image_folder \<Rightarrow> nat \<Rightarrow> nat \<Rightarrow> ('t, 'o, 'l) names
   \<Rightarrow> pyerr + ('t, 'o, 'l) names" where
  "run_epoch T dataset num_epochs epoch v =
     (case train_batches T (dataloader (shuffled T) (samples dataset) epoch)
             (v\<lparr>running_loss := Some (PFloat ''0.0'')\<rparr>) of
        Inl e \<Rightarrow> Inl e
      | Inr v' \<Rightarrow>
          (case loss v' of
             None \<Rightarrow> Inl (NameError ''loss'')
           | Some l \<Rightarrow> Inr (v'\<lparr>printed := printed v' @ [(epoch + 1, num_epochs, l)]\<rparr>)))"

fun run_epochs ::
  "('x, 't, 'o, 'l) torch \<Rightarrow> 'x image_folder \<Rightarrow> nat \<Rightarrow> nat list \<Rightarrow> ('t, 'o, 'l) names
   \<Rightarrow> pyerr + ('t, 'o, 'l) names" where
  "run_epochs T dataset num_epochs [] v = Inr v"
| "run_epochs T dataset num_epochs (epoch # rest) v =
     (case run_epoch T dataset num_epochs epoch v of
        Inl e \<Rightarrow> Inl e
      | Inr v' \<Rightarrow> run_epochs T dataset num_epochs rest v')"

text \<open>
  The whole cell, run in a kernel where \<open>loss\<close> and \<open>running_loss\<close> are not bound yet.
  The transform is applied when a sample is read and is part of what \<open>ImageFolder\<close>
  gives. Moving the model and the batches to the device changes no value, and the
  progress bar and \<^verbatim>\<open>print("Starting fine-tuning...")\<close> only show text: they are left
  out.
\<close>

definition fine_tune ::
  "('x, 't, 'o, 'l) torch \<Rightarrow> pyerr + ('t, 'o, 'l) names" where
  "fine_tune T =
     (case ImageFolder T ''my_data_dir'' of
        Inl e \<Rightarrow> Inl e
      | Inr dataset \<Rightarrow>
          (case prepare_model T dataset of
             Inl e \<Rightarrow> Inl e
           | Inr m \<Rightarrow>
               run_epochs T dataset 10 [0..<10]
                 \<lparr>model = m, optimizer = Adam T m (PFloat ''0.001''),
                  running_loss = None, loss = None, printed = []\<rparr>))"

section \<open>The training, embedding and fine-tuning invocations of the notebooks\<close>

text \<open>
  Quick start:
  \<^verbatim>\<open>
  lightly_train.train(
      out="out/my_experiment",  # Output directory
      data="my_data_dir",  # Directory with images
      model="torchvision/resnet18",  # Model to train
      epochs=10,  # Number of epochs to train
      batch_size=32,  # Batch size
  )
  lightly_train.embed(
      out="my_embeddings.pth",  # Exported embeddings
      checkpoint="out/my_experiment/checkpoints/last.ckpt",  # LightlyTrain checkpoint
      data="my_data_dir",  # Directory with images
  )
  \<close>
\<close>

definition quick_start_train :: call where
  "quick_start_train =
     \<lparr>callee = ''lightly_train.train'', positional = [],
      kwargs = [(''out'', PStr ''out/my_experiment''),
                (''data'', PStr ''my_data_dir''),
                (''model'', PStr ''torchvision/resnet18''),
                (''epochs'', PInt 10),
                (''batch_size'', PInt 32)]\<rparr>"

definition quick_start_embed :: call where
  "quick_start_embed =
     \<lparr>callee = ''lightly_train.embed'', positional = [],
      kwargs = [(''out'', PStr ''my_embeddings.pth''),
                (''checkpoint'', PStr ''out/my_experiment/checkpoints/last.ckpt''),
                (''data'', PStr ''my_data_dir'')]\<rparr>"

text \<open>
  YOLOv12; \<open>datasets_dir\<close> is the text of \<open>settings['datasets_dir']\<close>:
  \<^verbatim>\<open>
  lightly_train.train(
      out="out/my_experiment",  # Output directory.
      data=f"{settings['datasets_dir']}/coco8/images/train",  # Directory with images.
      model="ultralytics/yolov12s.yaml",  # Pass the YOLO model.
      epochs=10,  # Number of epochs to train
      batch_size=32,  # Batch size
      overwrite=True,
  )
  model = YOLO("out/my_experiment/exported_models/exported_last.pt")
  model.train(data="coco8.yaml", epochs=10)
  \<close>
\<close>

definition yolov12_train :: "string \<Rightarrow> call" where
  "yolov12_train datasets_dir =
     \<lparr>callee = ''lightly_train.train'', positional = [],
      kwargs = [(''out'', PStr ''out/my_experiment''),
                (''data'', PStr (datasets_dir @ ''/coco8/images/train'')),
                (''model'', PStr ''ultralytics/yolov12s.yaml''),
                (''epochs'', PInt 10),
                (''batch_size'', PInt 32),
                (''overwrite'', PBool True)]\<rparr>"

definition yolov12_load :: call where
  "yolov12_load =
     \<lparr>callee = ''YOLO'',
      positional = [PStr ''out/my_experiment/exported_models/exported_last.pt''],
      kwargs = []\<rparr>"

definition yolov12_finetune :: call where
  "yolov12_finetune =
     \<lparr>callee = ''YOLO.train'', positional = [],
      kwargs = [(''data'', PStr ''coco8.yaml''), (''epochs'', PInt 10)]\<rparr>"

text \<open>
  RF-DETR; \<open>pretrain_location\<close> and \<open>finetune_location\<close> are
  \<open>pretrain_dataset.location\<close> and \<open>finetune_dataset.location\<close>:
  \<^verbatim>\<open>
  lightly_train.train(
      out="out/my_experiment",
      data=pretrain_dataset.location,
      model="rfdetr/rf-detr-base",
      epochs=5,
      batch_size=16,
      overwrite=True,
  )
  model = RFDETRBase(pretrain_weights="out/my_experiment/exported_models/exported_last.pt")
  model.train(dataset_dir=finetune_dataset.location, epochs=10, batch_size=4, lr=1e-4)
  \<close>
\<close>

definition rfdetr_train :: "string \<Rightarrow> call" where
  "rfdetr_train pretrain_location =
     \<lparr>callee = ''lightly_train.train'', positional = [],
      kwargs = [(''out'', PStr ''out/my_experiment''),
                (''data'', PStr pretrain_location),
                (''model'', PStr ''rfdetr/rf-detr-base''),
                (''epochs'', PInt 5),
                (''batch_size'', PInt 16),
                (''overwrite'', PBool True)]\<rparr>"

definition rfdetr_load :: call where
  "rfdetr_load =
     \<lparr>callee = ''RFDETRBase'', positional = [],
      kwargs = [(''pretrain_weights'',
                 PStr ''out/my_experiment/exported_models/exported_last.pt'')]\<rparr>"

definition rfdetr_finetune :: "string \<Rightarrow> call" where
  "rfdetr_finetune finetune_location =
     \<lparr>callee = ''RFDETRBase.train'', positional = [],
      kwargs = [(''dataset_dir'', PStr finetune_location),
                (''epochs'', PInt 10),
                (''batch_size'', PInt 4),
                (''lr'', PFloat ''1e-4'')]\<rparr>"

definition training_invocations :: "string \<Rightarrow> string \<Rightarrow> call list" where
  "training_invocations datasets_dir pretrain_location =
     [quick_start_train, yolov12_train datasets_dir, rfdetr_train pretrain_location]"

definition embedding_invocations :: "call list" where
  "embedding_invocations = [quick_start_embed]"

subsection \<open>The options an invocation names\<close>

definition kw :: "call \<Rightarrow> string \<Rightarrow> pyval option" where
  "kw c k = map_of (kwargs c) k"

definition option_names :: "string list" where
  "option_names =
     [''out'', ''data'', ''model'', ''epochs'', ''batch_size'', ''overwrite'', ''checkpoint'']"

definition named_options_only :: "call \<Rightarrow> bool" where
  "named_options_only c =
     (positional c = [] \<and> distinct (map fst (kwargs c)) \<and>
      list_all (\<lambda>k. k \<in> set option_names) (map fst (kwargs c)))"

definition is_str :: "pyval option \<Rightarrow> bool" where
  "is_str v = (case v of Some (PStr s) \<Rightarrow> True | _ \<Rightarrow> False)"

definition is_positive_int :: "pyval option \<Rightarrow> bool" where
  "is_positive_int v = (case v of Some (PInt n) \<Rightarrow> 0 < n | _ \<Rightarrow> False)"

definition is_bool :: "pyval option \<Rightarrow> bool" where
  "is_bool v = (case v of Some (PBool b) \<Rightarrow> True | _ \<Rightarrow> False)"

definition supplies_paths_model_and_sizes :: "call \<Rightarrow> bool" where
  "supplies_paths_model_and_sizes c =
     (is_str (kw c ''out'') \<and> is_str (kw c ''data'') \<and> is_str (kw c ''model'') \<and>
      is_positive_int (kw c ''epochs'') \<and> is_positive_int (kw c ''batch_size''))"

definition supplies_overwrite :: "call \<Rightarrow> bool" where
  "supplies_overwrite c = is_bool (kw c ''overwrite'')"

subsection \<open>Running the cells\<close>

text \<open>
  A library is what it does to the world \<open>'w\<close> outside the notebook (the file system,
  the objects it hands back) when called: it returns the new world or raises. A cell
  that makes its calls one after the other stops at the first that raises; no cell of
  the notebooks has a \<open>try\<close>.
\<close>

type_synonym 'w library = "call \<Rightarrow> 'w \<Rightarrow> pyerr + 'w"

fun run_calls :: "'w library \<Rightarrow> call list \<Rightarrow> 'w \<Rightarrow> pyerr + 'w" where
  "run_calls lib [] w = Inr w"
| "run_calls lib (c # cs) w =
     (case lib c w of
        Inl e \<Rightarrow> Inl e
      | Inr w' \<Rightarrow> run_calls lib cs w')"

text \<open>
  The cells of the YOLOv12 notebook and the pretraining cell of the RF-DETR notebook
  stand under \<^verbatim>\<open>if __name__ == "__main__":\<close>; \<open>name\<close> is the value of \<open>__name__\<close>.
\<close>

definition quick_start_train_cell :: "'w library \<Rightarrow> 'w \<Rightarrow> pyerr + 'w" where
  "quick_start_train_cell lib w = run_calls lib [quick_start_train] w"

definition quick_start_embed_cell :: "'w library \<Rightarrow> 'w \<Rightarrow> pyerr + 'w" where
  "quick_start_embed_cell lib w = run_calls lib [quick_start_embed] w"

definition yolov12_pretrain_cell :: "'w library \<Rightarrow> string \<Rightarrow> string \<Rightarrow> 'w \<Rightarrow> pyerr + 'w" where
  "yolov12_pretrain_cell lib name datasets_dir w =
     (if name = ''__main__'' then run_calls lib [yolov12_train datasets_dir] w else Inr w)"

definition yolov12_finetune_cell :: "'w library \<Rightarrow> string \<Rightarrow> 'w \<Rightarrow> pyerr + 'w" where
  "yolov12_finetune_cell lib name w =
     (if name = ''__main__'' then run_calls lib [yolov12_load, yolov12_finetune] w else Inr w)"

definition rfdetr_pretrain_cell :: "'w library \<Rightarrow> string \<Rightarrow> string \<Rightarrow> 'w \<Rightarrow> pyerr + 'w" where
  "rfdetr_pretrain_cell lib name pretrain_location w =
     (if name = ''__main__'' then run_calls lib [rfdetr_train pretrain_location] w else Inr w)"

definition rfdetr_finetune_cell :: "'w library \<Rightarrow> string \<Rightarrow> 'w \<Rightarrow> pyerr + 'w" where
  "rfdetr_finetune_cell lib finetune_location w =
     run_calls lib [rfdetr_load, rfdetr_finetune finetune_location] w"

section \<open>The documentation workflow\<close>

text \<open>
  \<^verbatim>\<open>
  detect-code-changes:
    outputs:
      run-tests: ${{ steps.filter.outputs.run-tests }}
    steps:
      - uses: actions/checkout@v4
      - uses: dorny/paths-filter@v3
        id: filter
        with:
          list-files: shell
          filters: |
            run-tests:
              - '!docker/**'
              - '!.github/**'
              - '.github/workflows/test_documentation.yml'
  test-documentation:
    needs: detect-code-changes
    if: needs.detect-code-changes.outputs.run-tests == 'true'
  \<close>
  The filter is a list of glob patterns. The three forms the workflow uses: a plain
  path, \<open>dir/**\<close> (the directory and everything below it), and a leading \<open>!\<close>,
  which negates the pattern after it: the negated pattern matches every path that the
  pattern does not match.
\<close>

datatype pattern = Path string | Below string | Negated pattern

fun parse_pattern :: "string \<Rightarrow> pattern" where
  "parse_pattern [] = Path []"
| "parse_pattern (c # p) =
     (if c = CHR ''!'' then Negated (parse_pattern p)
      else if suffix ''/**'' (c # p) then Below (take (length (c # p) - 3) (c # p))
      else Path (c # p))"

fun matches :: "pattern \<Rightarrow> string \<Rightarrow> bool" where
  "matches (Path p) f = (f = p)"
| "matches (Below d) f = (f = d \<or> prefix (d @ ''/'') f)"
| "matches (Negated p) f = (\<not> matches p f)"

text \<open>
  The action's input \<open>predicate-quantifier\<close> says how the patterns of one filter
  combine: with \<open>some\<close> a file matches the filter when at least one pattern matches it,
  with \<open>every\<close> when all of them do. The workflow does not set it, and the action's
  default is \<open>some\<close>.
\<close>

datatype quantifier = Some_pattern | Every_pattern

definition filter_matches :: "quantifier \<Rightarrow> pattern list \<Rightarrow> string \<Rightarrow> bool" where
  "filter_matches q patterns f =
     (case q of
        Some_pattern \<Rightarrow> list_ex (\<lambda>p. matches p f) patterns
      | Every_pattern \<Rightarrow> list_all (\<lambda>p. matches p f) patterns)"

definition run_tests_filter :: "pattern list" where
  "run_tests_filter =
     map parse_pattern
       [''!docker/**'', ''!.github/**'', ''.github/workflows/test_documentation.yml'']"

definition predicate_quantifier :: quantifier where
  "predicate_quantifier = Some_pattern"

text \<open>The output \<open>run-tests\<close>: whether some changed file matches the filter.\<close>

definition run_tests :: "string list \<Rightarrow> string" where
  "run_tests changed =
     (if list_ex (filter_matches predicate_quantifier run_tests_filter) changed
      then ''true'' else ''false'')"

text \<open>
  The job \<open>test-documentation\<close> needs \<open>detect-code-changes\<close> to have succeeded and its
  output to be \<open>'true'\<close>; then it runs its five steps (checkout, uv, Python,
  \<open>make install-docs\<close>, \<open>cd docs && make docs docs-stable\<close>) and passes when each exits
  with status 0.
\<close>

datatype job_result = Skipped | Passed | Failed

definition test_documentation :: "bool \<Rightarrow> string list \<Rightarrow> nat list \<Rightarrow> job_result" where
  "test_documentation detect_succeeded changed exit_statuses =
     (if detect_succeeded \<and> run_tests changed = ''true''
      then (if list_all (\<lambda>status. status = 0) exit_statuses then Passed else Failed)
      else Skipped)"

text \<open>
  The gate as the specification words it, for comparison: some changed file is neither
  under \<open>docker/\<close> nor under \<open>.github/\<close>, or is the workflow file itself.
\<close>

definition spec_relevant :: "string \<Rightarrow> bool" where
  "spec_relevant f =
     ((\<not> prefix ''docker/'' f \<and> \<not> prefix ''.github/'' f) \<or>
      f = ''.github/workflows/test_documentation.yml'')"

definition spec_gate :: "string list \<Rightarrow> bool" where
  "spec_gate changed = list_ex spec_relevant changed"

section \<open>Files on disk\<close>

text \<open>
  The disk is a list of files under their paths, each path once. A file is an image, a
  training checkpoint (the embedding dimension and the encoder it holds), a dictionary
  saved by \<open>torch.save\<close>, or a blob nothing here looks into (logs, metrics, exported
  weights, the files of \<open>.git\<close>). The fields of a saved embeddings dictionary are as the
  specification (section 3) has them: an ordered sequence of filenames, and a
  two-dimensional array, here its shape and its rows.
\<close>

record 'a tensor2 =
  shape :: "nat \<times> nat"
  rows :: "'a list list"

datatype 'a saved = Filenames "string list" | Embeddings "'a tensor2"

datatype ('img, 'a) stored =
  Image 'img
| Checkpoint nat "'img \<Rightarrow> nat \<Rightarrow> 'a"
| Pickle "(string \<times> 'a saved) list"
| Opaque

type_synonym ('img, 'a) disk = "(string \<times> ('img, 'a) stored) list"

definition below :: "string \<Rightarrow> string \<Rightarrow> bool" where
  "below dir p = prefix (dir @ ''/'') p"



text \<open>Writing files below a directory: each replaces the file under its path, or is new.\<close>

definition write_files ::
  "string \<Rightarrow> (string \<times> ('img, 'a) stored) list \<Rightarrow> ('img, 'a) disk \<Rightarrow> ('img, 'a) disk" where
  "write_files dir files d = fold (\<lambda>(p, f). AList.update (dir @ ''/'' @ p) f) files d"

subsection \<open>The dataset cell of the quick start\<close>




subsection \<open>Training and embedding\<close>

text \<open>
  The notebooks call two entry points of the package \<open>lightly_train\<close>, \<open>train\<close> and
  \<open>embed\<close>. The package's code is not among the sources; the definitions of this
  subsection follow what the specification (sections 3, 4.1, 4.2 and 6) and the
  directory listing in the quick start say about them.
\<close>

text \<open>
  Modelled from the spec: what a call of \<open>lightly_train.train\<close> decides by itself and
  the notebook does not see, since the code of \<open>lightly_train.train\<close> is missing:
  whether it raises (invalid model identifier, unreadable data path, out of memory),
  which intermediate checkpoints it keeps (the numerals of their epoch and step), the
  suffix of its event log, and the encoder it has trained with its embedding dimension.
\<close>

record ('img, 'a) training_run =
  failure :: "string option"
  intermediate :: "(string \<times> string) list"
  events_suffix :: string
  embedding_dim :: nat
  encoder :: "'img \<Rightarrow> nat \<Rightarrow> 'a"

definition str_kw :: "call \<Rightarrow> string \<Rightarrow> string option" where
  "str_kw c k = (case kw c k of Some (PStr s) \<Rightarrow> Some s | _ \<Rightarrow> None)"

text \<open>
  Modelled from the spec: the files a completed \<open>lightly_train.train\<close> (whose code is
  missing) leaves below its output directory, as sections 3 and 6 and the listing of
  the quick start name them: the directory \<open>checkpoints\<close> with the intermediate
  checkpoints \<open>epoch=E-step=S.ckpt\<close> and the last checkpoint \<open>last.ckpt\<close>, the event
  log, the directory \<open>exported_models\<close> with \<open>exported_last.pt\<close>, \<open>metrics.jsonl\<close> and
  \<open>train.log\<close>.
\<close>

definition run_files :: "('img, 'a) training_run \<Rightarrow> (string \<times> ('img, 'a) stored) list" where
  "run_files run =
     map (\<lambda>(e, s). (''checkpoints/epoch='' @ e @ ''-step='' @ s @ ''.ckpt'',
                      Checkpoint (embedding_dim run) (encoder run)))
       (intermediate run) @
     [(''checkpoints/last.ckpt'', Checkpoint (embedding_dim run) (encoder run)),
      (''events.out.tfevents.'' @ events_suffix run, Opaque),
      (''exported_models/exported_last.pt'', Opaque),
      (''metrics.jsonl'', Opaque),
      (''train.log'', Opaque)]"

text \<open>
  Modelled from the spec: \<open>lightly_train.train\<close>, whose code is missing (section 4.1).
  It takes the output path, the data path and the model identifier; it raises what the
  library raises, or creates the files of the run below \<open>out\<close>. It reads the data
  directory and writes nowhere else (section 3: the dataset directory is consumed
  read-only). A call without one of the three arguments is a \<open>TypeError\<close>.
\<close>

definition lightly_train_train ::
  "('img, 'a) training_run \<Rightarrow> call \<Rightarrow> ('img, 'a) disk \<Rightarrow> pyerr + ('img, 'a) disk" where
  "lightly_train_train run c d =
     (case (str_kw c ''out'', str_kw c ''data'', str_kw c ''model'') of
        (Some out, Some dat, Some m) \<Rightarrow>
          (case failure run of
             Some msg \<Rightarrow> Inl (Raised msg)
           | None \<Rightarrow>
               Inr (write_files out (run_files run) d))
      | _ \<Rightarrow> Inl (Raised ''TypeError''))"

text \<open>
  Modelled from the spec: the images that \<open>lightly_train.embed\<close> (whose code is missing)
  finds below its data directory, in the order of the disk, each under its path in that
  directory.
\<close>

definition images_below :: "('img, 'a) disk \<Rightarrow> string \<Rightarrow> (string \<times> 'img) list" where
  "images_below d dir =
     concat (map (\<lambda>(p, f). case f of
                              Image img \<Rightarrow> if below dir p then [(drop (length dir + 1) p, img)] else []
                            | _ \<Rightarrow> []) d)"

text \<open>
  Modelled from the spec: the embeddings artifact that \<open>lightly_train.embed\<close> (whose
  code is missing) computes (sections 3 and 4.2): one feature vector per image, saved
  as a mapping with two fields, the filenames in order and the array of shape (number
  of images, embedding dimension) whose row \<open>i\<close> is the vector of filename \<open>i\<close>.
\<close>

definition embed_artifact ::
  "nat \<Rightarrow> ('img \<Rightarrow> nat \<Rightarrow> 'a) \<Rightarrow> (string \<times> 'img) list \<Rightarrow> (string \<times> 'a saved) list" where
  "embed_artifact dim enc images =
     [(''filenames'', Filenames (map fst images)),
      (''embeddings'',
       Embeddings \<lparr>shape = (length images, dim),
                   rows = map (\<lambda>(name, img). map (enc img) [0..<dim]) images\<rparr>)]"

text \<open>
  Modelled from the spec: \<open>lightly_train.embed\<close>, whose code is missing (section 4.2).
  It takes the output file path, the checkpoint file path and the data path, embeds the
  images with the encoder of the checkpoint and saves the artifact under the output
  path. A path that holds no checkpoint is a \<open>FileNotFoundError\<close>, a call without one
  of the three arguments a \<open>TypeError\<close>.
\<close>

definition lightly_train_embed ::
  "call \<Rightarrow> ('img, 'a) disk \<Rightarrow> pyerr + ('img, 'a) disk" where
  "lightly_train_embed c d =
     (case (str_kw c ''out'', str_kw c ''checkpoint'', str_kw c ''data'') of
        (Some out, Some checkpoint, Some dat) \<Rightarrow>
          (case map_of d checkpoint of
             Some (Checkpoint dim enc) \<Rightarrow>
               Inr (AList.update out (Pickle (embed_artifact dim enc (images_below d dat))) d)
           | _ \<Rightarrow> Inl (Raised ''FileNotFoundError''))
      | _ \<Rightarrow> Inl (Raised ''TypeError''))"

text \<open>
  Modelled from the spec: the package \<open>lightly_train\<close> (whose code is missing) as a
  library on the disk, with the two entry points above.
\<close>

definition lightly_train :: "('img, 'a) training_run \<Rightarrow> ('img, 'a) disk library" where
  "lightly_train run c d =
     (if callee c = ''lightly_train.train'' then lightly_train_train run c d
      else if callee c = ''lightly_train.embed'' then lightly_train_embed c d
      else Inl (Raised ''AttributeError''))"

subsection \<open>Loading the embeddings in the quick start\<close>

text \<open>
  \<^verbatim>\<open>
  embeddings = torch.load("my_embeddings.pth")
  print(embeddings["filenames"][:5])  # Print first five filenames
  print(embeddings["embeddings"].shape)
  \<close>
\<close>

definition load_embeddings ::
  "('img, 'a) disk \<Rightarrow> pyerr + string list \<times> (nat \<times> nat)" where
  "load_embeddings d =
     (case map_of d ''my_embeddings.pth'' of
        Some (Pickle embeddings) \<Rightarrow>
          (case (map_of embeddings ''filenames'', map_of embeddings ''embeddings'') of
             (Some (Filenames names), Some (Embeddings t)) \<Rightarrow> Inr (take 5 names, shape t)
           | _ \<Rightarrow> Inl (Raised ''KeyError''))
      | _ \<Rightarrow> Inl (Raised ''FileNotFoundError''))"

subsection \<open>The fine-tuning cells on the disk\<close>


section \<open>Concrete inputs\<close>

text \<open>
  Small inputs on which the theorems below are run: a labelled dataset of \<open>n\<close> images
  in three classes; an exported state dictionary; a PyTorch whose loss is the weight
  of \<open>fc\<close> plus the sum of the labels of the batch, whose training step adds one to
  that weight, whose shuffle rotates the samples by the epoch number, and whose forward
  pass runs out of memory when the weight of \<open>fc\<close> is \<open>k\<close>; the names bound when its
  loop starts; a library that raises in the callee \<open>failing\<close> and otherwise logs the
  callee; a trainer that saves its weights below \<open>runs\<close>; a training run, a cloned
  repository, the disk after the dataset cell, and the disk after the training cell.
\<close>

definition demo_dataset :: "nat \<Rightarrow> nat image_folder" where
  "demo_dataset n =
     \<lparr>classes = [''shirt'', ''shoe'', ''hat''],
      samples = map (\<lambda>i. (i, if i < 16 then 0 else 1)) [0..<n]\<rparr>"

definition demo_export :: "(string \<times> int) list" where
  "demo_export = [(''conv1.weight'', 5), (''fc.weight'', 7), (''fc.bias'', 8)]"

definition demo_torch :: "nat \<Rightarrow> int \<Rightarrow> (nat, int, nat, int) torch" where
  "demo_torch n k =
     \<lparr>ImageFolder = (\<lambda>root. if root = ''my_data_dir'' then Inr (demo_dataset n)
                             else Inl (Raised ''FileNotFoundError'')),
      torch_load = (\<lambda>path. if path = exported_model_path then Inr demo_export
                            else Inl (Raised ''FileNotFoundError'')),
      resnet18 = \<lparr>backbone = [(''conv1.weight'', 0)],
                  fc = \<lparr>in_features = 512, out_features = 1000, weight = 1, bias = 2\<rparr>\<rparr>,
      fresh_linear = (\<lambda>n_in n_out. (3, 4)),
      same_shape = (\<lambda>old new. True),
      shuffled = (\<lambda>epoch xs. rotate epoch xs),
      Adam = (\<lambda>m lr. 0),
      criterion = (\<lambda>m b. if weight (fc m) = k then Inl (Raised ''out of memory'')
                           else Inr (weight (fc m) + int (sum_list (map snd b)))),
      backward_step = (\<lambda>(m, opt) b l.
                         Inr (m\<lparr>fc := (fc m)\<lparr>weight := weight (fc m) + 1\<rparr>\<rparr>, Suc opt))\<rparr>"

definition demo_names :: "(int, nat, int) names" where
  "demo_names =
     \<lparr>model = \<lparr>backbone = [(''conv1.weight'', 5)],
               fc = \<lparr>in_features = 512, out_features = 3, weight = 3, bias = 4\<rparr>\<rparr>,
      optimizer = 0, running_loss = None, loss = None, printed = []\<rparr>"

definition demo_lib :: "string \<Rightarrow> string list library" where
  "demo_lib failing c w =
     (if callee c = failing then Inl (Raised ''out of memory'') else Inr (w @ [callee c]))"


definition demo_run :: "(nat, int) training_run" where
  "demo_run =
     \<lparr>failure = None, intermediate = [(''9'', ''30'')], events_suffix = ''123.0'',
      embedding_dim = 2, encoder = (\<lambda>img j. int (img + j))\<rparr>"


definition demo_disk :: "(nat, int) disk" where
  "demo_disk =
     [(''my_data_dir/shirts/a.jpg'', Image 1), (''my_data_dir/shoes/b.jpg'', Image 2)]"

definition demo_trained :: "(nat, int) disk" where
  "demo_trained = write_files ''out/my_experiment'' (run_files demo_run) demo_disk"

section \<open>Properties of the quick-start fine-tuning cell\<close>

subsection \<open>The data loader and the loop\<close>

lemma batch_sampler_short:
  "length batch + length xs < batch_size \<Longrightarrow> batch_sampler batch_size True batch xs = []"
  by (induction xs arbitrary: batch) auto

lemma dataloader_short:
  "length (draw epoch dataset) < 16 \<Longrightarrow> dataloader draw dataset epoch = []"
  by (simp add: dataloader_def batch_sampler_short)

lemma train_batches_append:
  "train_batches T (xs @ ys) v =
     (case train_batches T xs v of Inl e \<Rightarrow> Inl e | Inr u \<Rightarrow> train_batches T ys u)"
  by (induction xs arbitrary: v) (auto split: sum.splits)

lemma train_step_frame:
  "train_step T b v = Inr u \<Longrightarrow> printed u = printed v \<and> running_loss u = running_loss v"
  by (auto simp: train_step_def split: sum.splits)

lemma train_batches_frame:
  "train_batches T bs v = Inr u \<Longrightarrow> printed u = printed v \<and> running_loss u = running_loss v"
proof (induction bs arbitrary: v)
  case Nil
  then show ?case by simp
next
  case (Cons b bs)
  then obtain v' where "train_step T b v = Inr v'" and "train_batches T bs v' = Inr u"
    by (auto split: sum.splits)
  with Cons.IH [of v'] show ?case by (simp add: train_step_frame)
qed

lemma train_step_Inr:
  "train_step T b v = Inr u \<Longrightarrow> \<exists>l. criterion T (model v) b = Inr l \<and> loss u = Some l"
  by (auto simp: train_step_def split: sum.splits)

text \<open>
  C8. In the fine-tuning loop, the loss printed at the end of an epoch is the loss of
  the last batch of that epoch: the value of \<open>criterion\<close> on that batch, with the model as
  the batches before it have left it. It is not an average over the epoch: the
  accumulator \<open>running_loss\<close> is set to \<open>0.0\<close> when the epoch starts and still holds
  \<open>0.0\<close> when it ends.
\<close>

theorem epoch_prints_last_batch_loss:
  assumes "run_epoch T dataset num_epochs epoch v = Inr v'"
    and "dataloader (shuffled T) (samples dataset) epoch = bs @ [b]"
  shows "\<exists>u l. train_batches T bs (v\<lparr>running_loss := Some (PFloat ''0.0'')\<rparr>) = Inr u \<and>
           criterion T (model u) b = Inr l \<and>
           printed v' = printed v @ [(epoch + 1, num_epochs, l)] \<and>
           running_loss v' = Some (PFloat ''0.0'')"
proof -
  let ?v0 = "v\<lparr>running_loss := Some (PFloat ''0.0'')\<rparr>"
  from assms obtain w where w: "train_batches T (bs @ [b]) ?v0 = Inr w"
    by (auto simp: run_epoch_def split: sum.splits)
  then obtain u where u: "train_batches T bs ?v0 = Inr u" and step: "train_step T b u = Inr w"
    by (auto simp: train_batches_append split: sum.splits)
  from step obtain l where l: "criterion T (model u) b = Inr l" and lw: "loss w = Some l"
    using train_step_Inr by blast
  from w have frame: "printed w = printed v" "running_loss w = Some (PFloat ''0.0'')"
    using train_batches_frame [of T "bs @ [b]" ?v0 w] by simp_all
  from assms w lw have "v' = w\<lparr>printed := printed w @ [(epoch + 1, num_epochs, l)]\<rparr>"
    by (simp add: run_epoch_def)
  with frame have "printed v' = printed v @ [(epoch + 1, num_epochs, l)]"
    and "running_loss v' = Some (PFloat ''0.0'')"
    by simp_all
  with u l show ?thesis by blast
qed

text \<open>
  On 32 images the loader yields two batches; the first has loss 3, the second loss 20,
  and the epoch prints 20.
\<close>

theorem epoch_prints_last_batch_loss_witness:
  "run_epoch (demo_torch 32 0) (demo_dataset 32) 10 0 demo_names =
     Inr \<lparr>model = \<lparr>backbone = [(''conv1.weight'', 5)],
                    fc = \<lparr>in_features = 512, out_features = 3, weight = 5, bias = 4\<rparr>\<rparr>,
          optimizer = 2, running_loss = Some (PFloat ''0.0''), loss = Some 20,
          printed = [(1, 10, 20)]\<rparr> \<and>
   dataloader (shuffled (demo_torch 32 0)) (samples (demo_dataset 32)) 0 =
     [map (\<lambda>i. (i, 0)) [0..<16]] @ [map (\<lambda>i. (i, 1)) [16..<32]] \<and>
   criterion (demo_torch 32 0) (model demo_names) (map (\<lambda>i. (i, 0)) [0..<16]) = Inr 3 \<and>
   (\<exists>u. train_batches (demo_torch 32 0) [map (\<lambda>i. (i, 0)) [0..<16]]
          (demo_names\<lparr>running_loss := Some (PFloat ''0.0'')\<rparr>) = Inr u \<and>
        criterion (demo_torch 32 0) (model u) (map (\<lambda>i. (i, 1)) [16..<32]) = Inr 20)"
proof -
  let ?T = "demo_torch 32 0"
  let ?B1 = "map (\<lambda>i. (i, 0::nat)) [0..<16]" and ?B2 = "map (\<lambda>i. (i, 1::nat)) [16..<32]"
  let ?R = "\<lparr>model = \<lparr>backbone = [(''conv1.weight'', 5::int)],
                    fc = \<lparr>in_features = 512, out_features = 3, weight = 5, bias = 4\<rparr>\<rparr>,
          optimizer = 2::nat, running_loss = Some (PFloat ''0.0''), loss = Some (20::int),
          printed = [(1, 10, 20)]\<rparr>"
  have h1: "run_epoch ?T (demo_dataset 32) 10 0 demo_names = Inr ?R"
    by code_simp
  have h2: "dataloader (shuffled ?T) (samples (demo_dataset 32)) 0 = [?B1] @ [?B2]"
    by code_simp
  have h3: "criterion ?T (model demo_names) ?B1 = Inr 3"
    by code_simp
  from epoch_prints_last_batch_loss [OF h1 h2]
  have "\<exists>u. train_batches ?T [?B1] (demo_names\<lparr>running_loss := Some (PFloat ''0.0'')\<rparr>) = Inr u \<and>
          criterion ?T (model u) ?B2 = Inr 20"
    apply (elim exE conjE)
    apply (rule exI)
    apply (rule conjI)
     apply assumption
    apply (simp add: demo_names_def)
    done
  with h1 h2 h3 show ?thesis by (intro conjI)
qed

text \<open>
  C10. If the dataset has fewer than 16 images (and shuffling keeps their number), the
  loader yields no batch in any epoch, so the loop body is not run and leaves the names
  as they were; in a kernel where \<open>loss\<close> is not bound, the \<open>print\<close> at the end of the
  first epoch raises \<open>NameError\<close> for \<open>loss\<close>.
\<close>

theorem small_dataset_loss_unbound:
  assumes "ImageFolder T ''my_data_dir'' = Inr dataset"
    and "prepare_model T dataset = Inr m"
    and "length (samples dataset) < 16"
    and "\<And>epoch. length (shuffled T epoch (samples dataset)) = length (samples dataset)"
  shows "dataloader (shuffled T) (samples dataset) epoch = [] \<and>
         train_batches T (dataloader (shuffled T) (samples dataset) epoch) v = Inr v \<and>
         fine_tune T = Inl (NameError ''loss'')"
proof -
  have empty: "dataloader (shuffled T) (samples dataset) e = []" for e
    using assms(3,4) by (simp add: dataloader_short)
  have "[0..<10] = 0 # [1..<10]" by (simp add: upt_rec)
  then have "fine_tune T = Inl (NameError ''loss'')"
    using assms(1,2) empty by (simp add: fine_tune_def run_epoch_def)
  with empty show ?thesis by simp
qed

text \<open>
  With three images the cell ends in the \<open>NameError\<close>.
\<close>

theorem small_dataset_loss_unbound_witness:
  "length (samples (demo_dataset 3)) < 16 \<and>
   dataloader (shuffled (demo_torch 3 0)) (samples (demo_dataset 3)) 0 = [] \<and>
   fine_tune (demo_torch 3 0) = Inl (NameError ''loss'')"
proof -
  let ?T = "demo_torch 3 0"
  have h1: "ImageFolder ?T ''my_data_dir'' = Inr (demo_dataset 3)"
    by (simp add: demo_torch_def)
  have h2: "prepare_model ?T (demo_dataset 3) = Inr (model demo_names)"
    by code_simp
  have h3: "length (samples (demo_dataset 3)) < 16"
    by (simp add: demo_dataset_def)
  have h4: "length (shuffled ?T epoch (samples (demo_dataset 3))) = length (samples (demo_dataset 3))"
    for epoch
    by (simp add: demo_torch_def)
  from small_dataset_loss_unbound [OF h1 h2 h3 h4, of 0] h3 show ?thesis by simp
qed

subsection \<open>The model handed to the loop\<close>

lemma map_of_loaded:
  "map_of (map (\<lambda>(k, old). (k, f k old)) bb) k = map_option (f k) (map_of bb k)"
  by (induction bb) auto

lemma load_state_dict_entries:
  assumes "load_state_dict fits m0 sd = Inr m" and "k \<noteq> ''fc.weight''" and "k \<noteq> ''fc.bias''"
  shows "map_of (state_dict m) k = map_of sd k"
proof -
  from assms(1) have keys: "set (map fst sd) = set (map fst (state_dict m0))"
    and m: "backbone m = map (\<lambda>(k, old). (k, entry sd k old)) (backbone m0)"
    by (auto simp: load_state_dict_def loadable_def split: if_splits)
  have bb: "map_of (backbone m) k = map_option (entry sd k) (map_of (backbone m0) k)"
    unfolding m by (rule map_of_loaded)
  show ?thesis
  proof (cases "map_of (backbone m0) k")
    case None
    then have "k \<notin> fst ` set (backbone m0)" by (simp add: map_of_eq_None_iff)
    with assms(2,3) have "k \<notin> set (map fst (state_dict m0))" by (auto simp: state_dict_def)
    with keys have "map_of sd k = None" by (simp add: map_of_eq_None_iff)
    with None bb assms(2,3) show ?thesis
      by (simp add: state_dict_def map_add_def split: option.splits)
  next
    case (Some old)
    then have "k \<in> set (map fst (state_dict m0))"
      by (auto simp: state_dict_def dest: map_of_SomeD intro: rev_image_eqI)
    with keys have "k \<in> fst ` set sd" by simp
    then obtain v where v: "map_of sd k = Some v"
      by (cases "map_of sd k") (auto simp: map_of_eq_None_iff)
    with Some bb show ?thesis by (simp add: state_dict_def entry_def map_add_def)
  qed
qed

lemma load_state_dict_layers:
  "load_state_dict fits m0 sd = Inr m \<Longrightarrow>
     in_features (fc m) = in_features (fc m0) \<and> out_features (fc m) = out_features (fc m0)"
  by (auto simp: load_state_dict_def split: if_splits)

lemma prepare_model_Inr:
  assumes "prepare_model T dataset = Inr m"
  obtains sd loaded where "torch_load T exported_model_path = Inr sd"
    and "load_state_dict (same_shape T) (resnet18 T) sd = Inr loaded"
    and "m = loaded\<lparr>fc := nn_Linear (fresh_linear T) (in_features (fc loaded))
                               (length (classes dataset))\<rparr>"
proof -
  from assms obtain sd where 1: "torch_load T exported_model_path = Inr sd"
    by (cases "torch_load T exported_model_path") (simp_all add: prepare_model_def)
  with assms obtain loaded where 2: "load_state_dict (same_shape T) (resnet18 T) sd = Inr loaded"
    by (cases "load_state_dict (same_shape T) (resnet18 T) sd") (simp_all add: prepare_model_def)
  from assms 1 2 have "m = loaded\<lparr>fc := nn_Linear (fresh_linear T) (in_features (fc loaded))
                               (length (classes dataset))\<rparr>"
    by (simp add: prepare_model_def)
  with 1 2 show thesis by (rule that)
qed

lemma load_state_dict_fc:
  assumes "load_state_dict fits m0 sd = Inr m"
  shows "map_of sd ''fc.weight'' = Some (weight (fc m)) \<and> map_of sd ''fc.bias'' = Some (bias (fc m))"
proof -
  from assms have keys: "set (map fst sd) = set (map fst (state_dict m0))"
    and w: "weight (fc m) = entry sd ''fc.weight'' (weight (fc m0))"
    and b: "bias (fc m) = entry sd ''fc.bias'' (bias (fc m0))"
    by (auto simp: load_state_dict_def loadable_def split: if_splits)
  have "''fc.weight'' \<in> set (map fst (state_dict m0))" "''fc.bias'' \<in> set (map fst (state_dict m0))"
    by (simp_all add: state_dict_def)
  with keys have "''fc.weight'' \<in> fst ` set sd" "''fc.bias'' \<in> fst ` set sd"
    by simp_all
  then obtain x y where "map_of sd ''fc.weight'' = Some x" "map_of sd ''fc.bias'' = Some y"
    by (metis map_of_eq_None_iff not_Some_eq)
  with w b show ?thesis by (simp add: entry_def)
qed

text \<open>
  C4. The cell loads the exported weights into a new ResNet-18: after the load the
  model holds, under every key, the entry of the exported state dictionary. It then
  replaces \<open>fc\<close> by a new linear layer that has the input width of the ResNet's \<open>fc\<close>
  and as many outputs as the dataset has classes. The optimisation loop starts from
  that model: its first step, on the first batch of the first epoch, computes the loss
  with that model, runs the backward pass and the step of Adam (made for that model
  with \<open>lr=0.001\<close>), binds \<open>loss\<close>, and the cell trains on from the updated model and
  optimiser.
\<close>

theorem fc_replaced_for_dataset_classes:
  assumes "ImageFolder T ''my_data_dir'' = Inr dataset"
    and "prepare_model T dataset = Inr m"
  shows "(\<exists>sd loaded. torch_load T exported_model_path = Inr sd \<and>
            load_state_dict (same_shape T) (resnet18 T) sd = Inr loaded \<and>
            (\<forall>k. k \<noteq> ''fc.weight'' \<and> k \<noteq> ''fc.bias'' \<longrightarrow>
                 map_of (state_dict loaded) k = map_of sd k) \<and>
            map_of sd ''fc.weight'' = Some (weight (fc loaded)) \<and>
            map_of sd ''fc.bias'' = Some (bias (fc loaded)) \<and>
            m = loaded\<lparr>fc := nn_Linear (fresh_linear T) (in_features (fc (resnet18 T)))
                                      (length (classes dataset))\<rparr>) \<and>
         out_features (fc m) = length (classes dataset) \<and>
         fine_tune T =
           run_epochs T dataset 10 [0..<10]
             \<lparr>model = m, optimizer = Adam T m (PFloat ''0.001''),
              running_loss = None, loss = None, printed = []\<rparr> \<and>
         (\<forall>b bs l m' opt'.
            dataloader (shuffled T) (samples dataset) 0 = b # bs \<and>
            criterion T m b = Inr l \<and>
            backward_step T (m, Adam T m (PFloat ''0.001'')) b l = Inr (m', opt') \<longrightarrow>
            train_step T b
              \<lparr>model = m, optimizer = Adam T m (PFloat ''0.001''),
               running_loss = Some (PFloat ''0.0''), loss = None, printed = []\<rparr> =
              Inr \<lparr>model = m', optimizer = opt', running_loss = Some (PFloat ''0.0''),
                   loss = Some l, printed = []\<rparr> \<and>
            fine_tune T =
              (case train_batches T bs
                      \<lparr>model = m', optimizer = opt', running_loss = Some (PFloat ''0.0''),
                       loss = Some l, printed = []\<rparr> of
                 Inl e \<Rightarrow> Inl e
               | Inr v \<Rightarrow>
                   (case loss v of
                      None \<Rightarrow> Inl (NameError ''loss'')
                    | Some l' \<Rightarrow>
                        run_epochs T dataset 10 [1..<10]
                          (v\<lparr>printed := printed v @ [(1, 10, l')]\<rparr>))))"
proof -
  let ?v0 = "\<lparr>model = m, optimizer = Adam T m (PFloat ''0.001''),
              running_loss = None, loss = None, printed = []\<rparr>"
  from assms(2) obtain sd loaded where 1: "torch_load T exported_model_path = Inr sd"
    and 2: "load_state_dict (same_shape T) (resnet18 T) sd = Inr loaded"
    and 3: "m = loaded\<lparr>fc := nn_Linear (fresh_linear T) (in_features (fc loaded))
                               (length (classes dataset))\<rparr>"
    by (rule prepare_model_Inr)
  from 2 have 4: "in_features (fc loaded) = in_features (fc (resnet18 T))"
    by (simp add: load_state_dict_layers)
  have out: "out_features (fc m) = length (classes dataset)"
    by (simp add: 3 nn_Linear_def)
  have start: "fine_tune T = run_epochs T dataset 10 [0..<10] ?v0"
    using assms by (simp add: fine_tune_def)
  have loaded: "\<exists>sd loaded. torch_load T exported_model_path = Inr sd \<and>
            load_state_dict (same_shape T) (resnet18 T) sd = Inr loaded \<and>
            (\<forall>k. k \<noteq> ''fc.weight'' \<and> k \<noteq> ''fc.bias'' \<longrightarrow>
                 map_of (state_dict loaded) k = map_of sd k) \<and>
            map_of sd ''fc.weight'' = Some (weight (fc loaded)) \<and>
            map_of sd ''fc.bias'' = Some (bias (fc loaded)) \<and>
            m = loaded\<lparr>fc := nn_Linear (fresh_linear T) (in_features (fc (resnet18 T)))
                                      (length (classes dataset))\<rparr>"
  proof (intro exI conjI)
    show "torch_load T exported_model_path = Inr sd" by (rule 1)
    show "load_state_dict (same_shape T) (resnet18 T) sd = Inr loaded" by (rule 2)
    show "\<forall>k. k \<noteq> ''fc.weight'' \<and> k \<noteq> ''fc.bias'' \<longrightarrow> map_of (state_dict loaded) k = map_of sd k"
      using load_state_dict_entries [OF 2] by blast
    show "map_of sd ''fc.weight'' = Some (weight (fc loaded))"
      and "map_of sd ''fc.bias'' = Some (bias (fc loaded))"
      using load_state_dict_fc [OF 2] by simp_all
    show "m = loaded\<lparr>fc := nn_Linear (fresh_linear T) (in_features (fc (resnet18 T)))
                                      (length (classes dataset))\<rparr>"
      using 3 4 by simp
  qed
  have step: "train_step T b
              \<lparr>model = m, optimizer = Adam T m (PFloat ''0.001''),
               running_loss = Some (PFloat ''0.0''), loss = None, printed = []\<rparr> =
              Inr \<lparr>model = m', optimizer = opt', running_loss = Some (PFloat ''0.0''),
                   loss = Some l, printed = []\<rparr> \<and>
            fine_tune T =
              (case train_batches T bs
                      \<lparr>model = m', optimizer = opt', running_loss = Some (PFloat ''0.0''),
                       loss = Some l, printed = []\<rparr> of
                 Inl e \<Rightarrow> Inl e
               | Inr v \<Rightarrow>
                   (case loss v of
                      None \<Rightarrow> Inl (NameError ''loss'')
                    | Some l' \<Rightarrow>
                        run_epochs T dataset 10 [1..<10]
                          (v\<lparr>printed := printed v @ [(1, 10, l')]\<rparr>)))"
    if loader: "dataloader (shuffled T) (samples dataset) 0 = b # bs"
      and fwd: "criterion T m b = Inr l"
      and bwd: "backward_step T (m, Adam T m (PFloat ''0.001'')) b l = Inr (m', opt')"
    for b bs l m' opt'
  proof -
    let ?v1 = "\<lparr>model = m, optimizer = Adam T m (PFloat ''0.001''),
               running_loss = Some (PFloat ''0.0''), loss = None, printed = []\<rparr>"
    let ?v2 = "\<lparr>model = m', optimizer = opt', running_loss = Some (PFloat ''0.0''),
                   loss = Some l, printed = []\<rparr>"
    have s: "train_step T b ?v1 = Inr ?v2"
      using fwd bwd by (simp add: train_step_def)
    have upt: "[0..<10] = 0 # [1..<10]"
      by (simp add: upt_rec)
    have "run_epoch T dataset 10 0 ?v0 =
        (case train_batches T bs ?v2 of
           Inl e \<Rightarrow> Inl e
         | Inr v \<Rightarrow>
             (case loss v of
                None \<Rightarrow> Inl (NameError ''loss'')
              | Some l' \<Rightarrow> Inr (v\<lparr>printed := printed v @ [(1, 10, l')]\<rparr>)))"
      by (simp add: run_epoch_def loader s split: sum.splits option.splits)
    then have "fine_tune T =
        (case train_batches T bs ?v2 of
           Inl e \<Rightarrow> Inl e
         | Inr v \<Rightarrow>
             (case loss v of
                None \<Rightarrow> Inl (NameError ''loss'')
              | Some l' \<Rightarrow>
                  run_epochs T dataset 10 [1..<10] (v\<lparr>printed := printed v @ [(1, 10, l')]\<rparr>)))"
      unfolding start upt by (simp split: sum.splits option.splits)
    with s show ?thesis by simp
  qed
  from loaded out start step show ?thesis by blast
qed

text \<open>
  The dataset of the concrete inputs has three classes, and the prepared model three
  outputs; the first step computes the loss 3 with it and moves the weight of \<open>fc\<close>
  from 3 to 4.
\<close>

theorem fc_replaced_for_dataset_classes_witness:
  "ImageFolder (demo_torch 32 0) ''my_data_dir'' = Inr (demo_dataset 32) \<and>
   prepare_model (demo_torch 32 0) (demo_dataset 32) = Inr (model demo_names) \<and>
   length (classes (demo_dataset 32)) = 3 \<and>
   out_features (fc (model demo_names)) = 3 \<and>
   fine_tune (demo_torch 32 0) =
     run_epochs (demo_torch 32 0) (demo_dataset 32) 10 [0..<10] demo_names \<and>
   dataloader (shuffled (demo_torch 32 0)) (samples (demo_dataset 32)) 0 =
     map (\<lambda>i. (i, 0)) [0..<16] # [map (\<lambda>i. (i, 1)) [16..<32]] \<and>
   criterion (demo_torch 32 0) (model demo_names) (map (\<lambda>i. (i, 0)) [0..<16]) = Inr 3 \<and>
   train_step (demo_torch 32 0) (map (\<lambda>i. (i, 0)) [0..<16])
     (demo_names\<lparr>running_loss := Some (PFloat ''0.0'')\<rparr>) =
     Inr \<lparr>model = \<lparr>backbone = [(''conv1.weight'', 5)],
                    fc = \<lparr>in_features = 512, out_features = 3, weight = 4, bias = 4\<rparr>\<rparr>,
          optimizer = 1, running_loss = Some (PFloat ''0.0''), loss = Some 3, printed = []\<rparr>"
proof -
  let ?T = "demo_torch 32 0"
  let ?B1 = "map (\<lambda>i. (i, 0::nat)) [0..<16]" and ?B2 = "map (\<lambda>i. (i, 1::nat)) [16..<32]"
  let ?m' = "\<lparr>backbone = [(''conv1.weight'', 5::int)],
              fc = \<lparr>in_features = 512, out_features = 3, weight = 4, bias = 4\<rparr>\<rparr>"
  have h1: "ImageFolder ?T ''my_data_dir'' = Inr (demo_dataset 32)"
    by (simp add: demo_torch_def)
  have h2: "prepare_model ?T (demo_dataset 32) = Inr (model demo_names)"
    by code_simp
  have n: "length (classes (demo_dataset 32)) = 3"
    by (simp add: demo_dataset_def)
  have names: "\<lparr>model = model demo_names, optimizer = Adam ?T (model demo_names) (PFloat ''0.001''),
              running_loss = None, loss = None, printed = []\<rparr> = demo_names"
    by (simp add: demo_names_def demo_torch_def)
  have names': "\<lparr>model = model demo_names, optimizer = Adam ?T (model demo_names) (PFloat ''0.001''),
              running_loss = Some (PFloat ''0.0''), loss = None, printed = []\<rparr> =
      demo_names\<lparr>running_loss := Some (PFloat ''0.0'')\<rparr>"
    by (simp add: demo_names_def demo_torch_def)
  have b1: "dataloader (shuffled ?T) (samples (demo_dataset 32)) 0 = ?B1 # [?B2]"
    by code_simp
  have b2: "criterion ?T (model demo_names) ?B1 = Inr 3"
    by code_simp
  have b3: "backward_step ?T (model demo_names, Adam ?T (model demo_names) (PFloat ''0.001'')) ?B1 3 =
      Inr (?m', 1)"
    by code_simp
  note t = fc_replaced_for_dataset_classes [OF h1 h2]
  from t have "out_features (fc (model demo_names)) = length (classes (demo_dataset 32))"
    and "fine_tune ?T = run_epochs ?T (demo_dataset 32) 10 [0..<10] demo_names"
    unfolding names by simp_all
  moreover from t [THEN conjunct2, THEN conjunct2, THEN conjunct2, rule_format,
      OF conjI [OF b1 conjI [OF b2 b3]], THEN conjunct1]
  have "train_step ?T ?B1 (demo_names\<lparr>running_loss := Some (PFloat ''0.0'')\<rparr>) =
      Inr \<lparr>model = ?m', optimizer = 1, running_loss = Some (PFloat ''0.0''), loss = Some 3,
           printed = []\<rparr>"
    unfolding names' .
  ultimately show ?thesis using h1 h2 n b1 b2 by simp
qed

text \<open>
  C9. When fine-tuning starts, every entry of the model's state dictionary other than
  \<open>fc.weight\<close> and \<open>fc.bias\<close> is the entry of the exported state dictionary under the
  same key. The layer \<open>fc\<close> is the newly drawn one: it is the same whatever the exported
  file holds.
\<close>

theorem backbone_from_export_fc_fresh:
  assumes "torch_load T exported_model_path = Inr sd"
    and "prepare_model T dataset = Inr m"
  shows "(\<forall>k. k \<noteq> ''fc.weight'' \<and> k \<noteq> ''fc.bias'' \<longrightarrow> map_of (state_dict m) k = map_of sd k) \<and>
         fc m = nn_Linear (fresh_linear T) (in_features (fc (resnet18 T))) (length (classes dataset)) \<and>
         (\<forall>other m'. prepare_model (T\<lparr>torch_load := other\<rparr>) dataset = Inr m' \<longrightarrow> fc m' = fc m)"
proof -
  from assms(2) obtain sd' loaded where 1: "torch_load T exported_model_path = Inr sd'"
    and 2: "load_state_dict (same_shape T) (resnet18 T) sd' = Inr loaded"
    and 3: "m = loaded\<lparr>fc := nn_Linear (fresh_linear T) (in_features (fc loaded))
                               (length (classes dataset))\<rparr>"
    by (rule prepare_model_Inr)
  from 1 assms(1) have sd: "sd' = sd" by simp
  have fc: "fc m = nn_Linear (fresh_linear T) (in_features (fc (resnet18 T))) (length (classes dataset))"
    using 2 3 by (simp add: load_state_dict_layers)
  have A: "map_of (state_dict m) k = map_of sd k" if "k \<noteq> ''fc.weight''" "k \<noteq> ''fc.bias''" for k
  proof -
    have "map_of (state_dict m) k = map_of (state_dict loaded) k"
      using that by (simp add: 3 state_dict_def map_add_def split: option.splits)
    also have "\<dots> = map_of sd k"
      using 2 that unfolding sd by (rule load_state_dict_entries)
    finally show ?thesis .
  qed
  have B: "fc m' = fc m" if "prepare_model (T\<lparr>torch_load := other\<rparr>) dataset = Inr m'" for other m'
  proof -
    from that obtain sd2 loaded2 where
      "load_state_dict (same_shape T) (resnet18 T) sd2 = Inr loaded2"
      and "m' = loaded2\<lparr>fc := nn_Linear (fresh_linear T) (in_features (fc loaded2))
                               (length (classes dataset))\<rparr>"
      by (auto elim: prepare_model_Inr)
    then show ?thesis by (simp add: fc load_state_dict_layers)
  qed
  from A B fc show ?thesis by blast
qed

text \<open>
  The exported dictionary holds 5 under \<open>conv1.weight\<close> and 7 under \<open>fc.weight\<close>; the
  prepared model holds 5 under \<open>conv1.weight\<close>, and the weight of its \<open>fc\<close> is the drawn
  3.
\<close>

theorem backbone_from_export_fc_fresh_witness:
  "torch_load (demo_torch 32 0) exported_model_path = Inr demo_export \<and>
   prepare_model (demo_torch 32 0) (demo_dataset 32) = Inr (model demo_names) \<and>
   map_of (state_dict (model demo_names)) ''conv1.weight'' = map_of demo_export ''conv1.weight'' \<and>
   map_of demo_export ''conv1.weight'' = Some 5 \<and>
   map_of demo_export ''fc.weight'' = Some 7 \<and>
   weight (fc (model demo_names)) = 3"
proof -
  let ?T = "demo_torch 32 0"
  have h1: "torch_load ?T exported_model_path = Inr demo_export"
    by (simp add: demo_torch_def)
  have h2: "prepare_model ?T (demo_dataset 32) = Inr (model demo_names)"
    by code_simp
  have k: "''conv1.weight'' \<noteq> ''fc.weight'' \<and> ''conv1.weight'' \<noteq> ''fc.bias''"
    by simp
  note backbone_from_export_fc_fresh [OF h1 h2]
  then have "map_of (state_dict (model demo_names)) ''conv1.weight'' = map_of demo_export ''conv1.weight''"
    and "fc (model demo_names) =
          nn_Linear (fresh_linear ?T) (in_features (fc (resnet18 ?T))) (length (classes (demo_dataset 32)))"
    using k by simp_all
  moreover from this(2) have "weight (fc (model demo_names)) = 3"
    by (simp add: nn_Linear_def demo_torch_def)
  moreover have "map_of demo_export ''conv1.weight'' = Some 5" "map_of demo_export ''fc.weight'' = Some 7"
    by (simp_all add: demo_export_def)
  ultimately show ?thesis using h1 h2 by simp
qed

section \<open>Properties of the invocations\<close>

subsection \<open>Options\<close>

lemma run_calls_single: "run_calls lib [c] w = lib c w"
  by (simp split: sum.splits)

text \<open>
  C3, amended. Every training and embedding invocation of the notebooks passes keyword
  arguments only, each named once, with names among \<open>out\<close>, \<open>data\<close>, \<open>model\<close>,
  \<open>epochs\<close>, \<open>batch_size\<close>, \<open>overwrite\<close> and \<open>checkpoint\<close>. Every training invocation
  gives \<open>out\<close>, \<open>data\<close> and \<open>model\<close> as strings and \<open>epochs\<close> and \<open>batch_size\<close> as
  positive integers. \<open>overwrite\<close> is \<open>True\<close> in the YOLOv12 and RF-DETR notebooks; the
  quick start does not name it. The cells hand the arguments to the library as they
  are: whatever the datasets directory and the dataset location, the result of the cell
  is the result of the call.
\<close>

theorem invocations_name_known_options:
  "list_all named_options_only (training_invocations datasets_dir location @ embedding_invocations) \<and>
   list_all supplies_paths_model_and_sizes (training_invocations datasets_dir location) \<and>
   kw quick_start_train ''overwrite'' = None \<and>
   kw (yolov12_train datasets_dir) ''overwrite'' = Some (PBool True) \<and>
   kw (rfdetr_train location) ''overwrite'' = Some (PBool True) \<and>
   quick_start_train_cell lib w = lib quick_start_train w \<and>
   quick_start_embed_cell lib w = lib quick_start_embed w \<and>
   yolov12_pretrain_cell lib ''__main__'' datasets_dir w = lib (yolov12_train datasets_dir) w \<and>
   rfdetr_pretrain_cell lib ''__main__'' location w = lib (rfdetr_train location) w"
proof -
  have "list_all named_options_only (training_invocations datasets_dir location @ embedding_invocations)"
    by (simp add: training_invocations_def embedding_invocations_def named_options_only_def
        quick_start_train_def quick_start_embed_def yolov12_train_def rfdetr_train_def
        option_names_def)
  moreover have "list_all supplies_paths_model_and_sizes (training_invocations datasets_dir location)"
    by (simp add: training_invocations_def supplies_paths_model_and_sizes_def kw_def
        is_str_def is_positive_int_def quick_start_train_def yolov12_train_def rfdetr_train_def)
  moreover have "kw quick_start_train ''overwrite'' = None"
    "kw (yolov12_train datasets_dir) ''overwrite'' = Some (PBool True)"
    "kw (rfdetr_train location) ''overwrite'' = Some (PBool True)"
    by (simp_all add: kw_def quick_start_train_def yolov12_train_def rfdetr_train_def)
  moreover have "quick_start_train_cell lib w = lib quick_start_train w"
    "quick_start_embed_cell lib w = lib quick_start_embed w"
    "yolov12_pretrain_cell lib ''__main__'' datasets_dir w = lib (yolov12_train datasets_dir) w"
    "rfdetr_pretrain_cell lib ''__main__'' location w = lib (rfdetr_train location) w"
    by (simp_all add: quick_start_train_cell_def quick_start_embed_cell_def
        yolov12_pretrain_cell_def rfdetr_pretrain_cell_def run_calls_single del: run_calls.simps)
  ultimately show ?thesis by blast
qed

text \<open>
  Not every training invocation supplies an \<open>overwrite\<close> flag: the quick start names
  none.
\<close>

theorem quick_start_train_names_no_overwrite:
  "\<not> list_all supplies_overwrite (training_invocations ''/content/datasets'' ''/content/Coconuts-1'')"
  by (simp add: training_invocations_def supplies_overwrite_def kw_def is_bool_def quick_start_train_def)

subsection \<open>Exceptions\<close>

lemma run_epochs_append:
  "run_epochs T dataset n (es @ es') v =
     (case run_epochs T dataset n es v of Inl e \<Rightarrow> Inl e | Inr u \<Rightarrow> run_epochs T dataset n es' u)"
  by (induction es arbitrary: v) (auto split: sum.splits)

lemma train_batches_fails:
  "train_batches T bs v = Inr u \<Longrightarrow> train_step T b u = Inl e \<Longrightarrow>
     train_batches T (bs @ b # bs') v = Inl e"
  by (simp add: train_batches_append)

lemma run_epoch_fails:
  "train_batches T (dataloader (shuffled T) (samples dataset) epoch)
     (v\<lparr>running_loss := Some (PFloat ''0.0'')\<rparr>) = Inl e \<Longrightarrow>
   run_epoch T dataset n epoch v = Inl e"
  by (simp add: run_epoch_def)

lemma run_epochs_fails:
  "run_epochs T dataset n es v = Inr u \<Longrightarrow> run_epoch T dataset n epoch u = Inl e \<Longrightarrow>
     run_epochs T dataset n (es @ epoch # es') v = Inl e"
  by (simp add: run_epochs_append)

lemma upt_split: "j < n \<Longrightarrow> [0..<n] = [0..<j] @ j # [Suc j..<n]"
  by (metis le_add1 le_add_same_cancel1 less_imp_add_positive upt_add_eq_append upt_conv_Cons)

text \<open>
  C5. An exception that a library raises in a training, embedding or fine-tuning cell
  is the result of the cell, unchanged: in the cells that call \<open>lightly_train.train\<close>
  and \<open>lightly_train.embed\<close>; in the fine-tuning cells of the YOLOv12 and RF-DETR
  notebooks, at the constructor and at \<open>train\<close>; and in the fine-tuning cell of the quick
  start, at \<open>ImageFolder\<close>, at \<open>torch.load\<close>, at \<open>load_state_dict\<close>, and at the forward
  or the backward pass of any batch of any epoch reached.
\<close>

theorem library_failures_propagate:
  "(lib quick_start_train w = Inl e \<longrightarrow> quick_start_train_cell lib w = Inl e) \<and>
   (lib quick_start_embed w = Inl e \<longrightarrow> quick_start_embed_cell lib w = Inl e) \<and>
   (lib (yolov12_train datasets_dir) w = Inl e \<longrightarrow>
      yolov12_pretrain_cell lib ''__main__'' datasets_dir w = Inl e) \<and>
   (lib yolov12_load w = Inl e \<longrightarrow> yolov12_finetune_cell lib ''__main__'' w = Inl e) \<and>
   (lib yolov12_load w = Inr w1 \<and> lib yolov12_finetune w1 = Inl e \<longrightarrow>
      yolov12_finetune_cell lib ''__main__'' w = Inl e) \<and>
   (lib (rfdetr_train pretrain_location) w = Inl e \<longrightarrow>
      rfdetr_pretrain_cell lib ''__main__'' pretrain_location w = Inl e) \<and>
   (lib rfdetr_load w = Inl e \<longrightarrow> rfdetr_finetune_cell lib finetune_location w = Inl e) \<and>
   (lib rfdetr_load w = Inr w1 \<and> lib (rfdetr_finetune finetune_location) w1 = Inl e \<longrightarrow>
      rfdetr_finetune_cell lib finetune_location w = Inl e) \<and>
   (ImageFolder T ''my_data_dir'' = Inl e \<longrightarrow> fine_tune T = Inl e) \<and>
   (ImageFolder T ''my_data_dir'' = Inr dataset \<and> torch_load T exported_model_path = Inl e \<longrightarrow>
      fine_tune T = Inl e) \<and>
   (ImageFolder T ''my_data_dir'' = Inr dataset \<and> torch_load T exported_model_path = Inr sd \<and>
    load_state_dict (same_shape T) (resnet18 T) sd = Inl e \<longrightarrow> fine_tune T = Inl e) \<and>
   (ImageFolder T ''my_data_dir'' = Inr dataset \<and> prepare_model T dataset = Inr m \<and>
    epoch < 10 \<and>
    run_epochs T dataset 10 [0..<epoch]
      \<lparr>model = m, optimizer = Adam T m (PFloat ''0.001''),
       running_loss = None, loss = None, printed = []\<rparr> = Inr v \<and>
    dataloader (shuffled T) (samples dataset) epoch = bs @ b # bs' \<and>
    train_batches T bs (v\<lparr>running_loss := Some (PFloat ''0.0'')\<rparr>) = Inr u \<and>
    (criterion T (model u) b = Inl e \<or>
     (\<exists>l. criterion T (model u) b = Inr l \<and>
          backward_step T (model u, optimizer u) b l = Inl e)) \<longrightarrow>
    fine_tune T = Inl e)"
proof -
  have cells:
    "lib quick_start_train w = Inl e \<longrightarrow> quick_start_train_cell lib w = Inl e"
    "lib quick_start_embed w = Inl e \<longrightarrow> quick_start_embed_cell lib w = Inl e"
    "lib (yolov12_train datasets_dir) w = Inl e \<longrightarrow>
      yolov12_pretrain_cell lib ''__main__'' datasets_dir w = Inl e"
    "lib yolov12_load w = Inl e \<longrightarrow> yolov12_finetune_cell lib ''__main__'' w = Inl e"
    "lib yolov12_load w = Inr w1 \<and> lib yolov12_finetune w1 = Inl e \<longrightarrow>
      yolov12_finetune_cell lib ''__main__'' w = Inl e"
    "lib (rfdetr_train pretrain_location) w = Inl e \<longrightarrow>
      rfdetr_pretrain_cell lib ''__main__'' pretrain_location w = Inl e"
    "lib rfdetr_load w = Inl e \<longrightarrow> rfdetr_finetune_cell lib finetune_location w = Inl e"
    "lib rfdetr_load w = Inr w1 \<and> lib (rfdetr_finetune finetune_location) w1 = Inl e \<longrightarrow>
      rfdetr_finetune_cell lib finetune_location w = Inl e"
    by (simp_all add: quick_start_train_cell_def quick_start_embed_cell_def
        yolov12_pretrain_cell_def yolov12_finetune_cell_def rfdetr_pretrain_cell_def
        rfdetr_finetune_cell_def)
  have prep:
    "ImageFolder T ''my_data_dir'' = Inl e \<longrightarrow> fine_tune T = Inl e"
    "ImageFolder T ''my_data_dir'' = Inr dataset \<and> torch_load T exported_model_path = Inl e \<longrightarrow>
      fine_tune T = Inl e"
    "ImageFolder T ''my_data_dir'' = Inr dataset \<and> torch_load T exported_model_path = Inr sd \<and>
      load_state_dict (same_shape T) (resnet18 T) sd = Inl e \<longrightarrow> fine_tune T = Inl e"
    by (simp_all add: fine_tune_def prepare_model_def)
  have loop: "fine_tune T = Inl e"
    if ds: "ImageFolder T ''my_data_dir'' = Inr dataset" and m: "prepare_model T dataset = Inr m"
      and epoch: "epoch < 10"
      and before: "run_epochs T dataset 10 [0..<epoch]
          \<lparr>model = m, optimizer = Adam T m (PFloat ''0.001''),
           running_loss = None, loss = None, printed = []\<rparr> = Inr v"
      and loader: "dataloader (shuffled T) (samples dataset) epoch = bs @ b # bs'"
      and batches: "train_batches T bs (v\<lparr>running_loss := Some (PFloat ''0.0'')\<rparr>) = Inr u"
      and step: "criterion T (model u) b = Inl e \<or>
        (\<exists>l. criterion T (model u) b = Inr l \<and> backward_step T (model u, optimizer u) b l = Inl e)"
  proof -
    from step have "train_step T b u = Inl e"
      by (auto simp: train_step_def)
    with batches have "train_batches T (bs @ b # bs') (v\<lparr>running_loss := Some (PFloat ''0.0'')\<rparr>) = Inl e"
      by (rule train_batches_fails)
    with loader have "run_epoch T dataset 10 epoch v = Inl e"
      by (simp add: run_epoch_fails)
    with before have "run_epochs T dataset 10 ([0..<epoch] @ epoch # [Suc epoch..<10])
          \<lparr>model = m, optimizer = Adam T m (PFloat ''0.001''),
           running_loss = None, loss = None, printed = []\<rparr> = Inl e"
      by (rule run_epochs_fails)
    moreover from epoch have "[0..<10] = [0..<epoch] @ epoch # [Suc epoch..<10]"
      by (rule upt_split)
    ultimately show ?thesis
      using ds m by (simp add: fine_tune_def)
  qed
  from cells prep loop show ?thesis by blast
qed

text \<open>
  A library that runs out of memory in \<open>lightly_train.train\<close>, one that does so in
  \<open>YOLO.train\<close> (after \<open>YOLO\<close> has returned), and a forward pass that does so on the
  second batch of the first epoch: each cell ends in that exception.
\<close>

theorem library_failures_propagate_witness:
  "demo_lib ''lightly_train.train'' quick_start_train [] = Inl (Raised ''out of memory'') \<and>
   quick_start_train_cell (demo_lib ''lightly_train.train'') [] = Inl (Raised ''out of memory'') \<and>
   demo_lib ''YOLO.train'' yolov12_load [] = Inr [''YOLO''] \<and>
   demo_lib ''YOLO.train'' yolov12_finetune [''YOLO''] = Inl (Raised ''out of memory'') \<and>
   yolov12_finetune_cell (demo_lib ''YOLO.train'') ''__main__'' [] = Inl (Raised ''out of memory'') \<and>
   dataloader (shuffled (demo_torch 32 4)) (samples (demo_dataset 32)) 0 =
     [map (\<lambda>i. (i, 0)) [0..<16]] @ map (\<lambda>i. (i, 1)) [16..<32] # [] \<and>
   fine_tune (demo_torch 32 0) \<noteq> Inl (Raised ''out of memory'') \<and>
   fine_tune (demo_torch 32 4) = Inl (Raised ''out of memory'')"
proof -
  let ?e = "Raised ''out of memory''"
  let ?T = "demo_torch 32 4"
  let ?B1 = "map (\<lambda>i. (i, 0::nat)) [0..<16]" and ?B2 = "map (\<lambda>i. (i, 1::nat)) [16..<32]"
  let ?u = "\<lparr>model = \<lparr>backbone = [(''conv1.weight'', 5::int)],
                    fc = \<lparr>in_features = 512, out_features = 3, weight = 4, bias = 4\<rparr>\<rparr>,
          optimizer = 1::nat, running_loss = Some (PFloat ''0.0''), loss = Some (3::int),
          printed = []\<rparr>"
  have a1: "demo_lib ''lightly_train.train'' quick_start_train [] = Inl ?e"
    by (simp add: demo_lib_def quick_start_train_def)
  have a2: "demo_lib ''YOLO.train'' yolov12_load [] = Inr [''YOLO'']"
    by (simp add: demo_lib_def yolov12_load_def)
  have a3: "demo_lib ''YOLO.train'' yolov12_finetune [''YOLO''] = Inl ?e"
    by (simp add: demo_lib_def yolov12_finetune_def)
  have b1: "ImageFolder ?T ''my_data_dir'' = Inr (demo_dataset 32)"
    by (simp add: demo_torch_def)
  have b2: "prepare_model ?T (demo_dataset 32) = Inr (model demo_names)"
    by code_simp
  have b3: "run_epochs ?T (demo_dataset 32) 10 [0..<0]
      \<lparr>model = model demo_names, optimizer = Adam ?T (model demo_names) (PFloat ''0.001''),
       running_loss = None, loss = None, printed = []\<rparr> = Inr demo_names"
    by (simp add: demo_names_def demo_torch_def)
  have b4: "dataloader (shuffled ?T) (samples (demo_dataset 32)) 0 = [?B1] @ ?B2 # []"
    by code_simp
  have b5: "train_batches ?T [?B1] (demo_names\<lparr>running_loss := Some (PFloat ''0.0'')\<rparr>) = Inr ?u"
    by code_simp
  have b6: "criterion ?T (model ?u) ?B2 = Inl ?e"
    by code_simp
  have ok: "fine_tune (demo_torch 32 0) \<noteq> Inl ?e"
    by code_simp
  have H: "ImageFolder ?T ''my_data_dir'' = Inr (demo_dataset 32) \<and>
    prepare_model ?T (demo_dataset 32) = Inr (model demo_names) \<and>
    (0::nat) < 10 \<and>
    run_epochs ?T (demo_dataset 32) 10 [0..<0]
      \<lparr>model = model demo_names, optimizer = Adam ?T (model demo_names) (PFloat ''0.001''),
       running_loss = None, loss = None, printed = []\<rparr> = Inr demo_names \<and>
    dataloader (shuffled ?T) (samples (demo_dataset 32)) 0 = [?B1] @ ?B2 # [] \<and>
    train_batches ?T [?B1] (demo_names\<lparr>running_loss := Some (PFloat ''0.0'')\<rparr>) = Inr ?u \<and>
    (criterion ?T (model ?u) ?B2 = Inl ?e \<or>
     (\<exists>l. criterion ?T (model ?u) ?B2 = Inr l \<and>
          backward_step ?T (model ?u, optimizer ?u) ?B2 l = Inl ?e))"
    using b1 b2 b3 b4 b5 b6 by (intro conjI disjI1) simp_all
  have embeddings_aligned_with_filenames: "quick_start_train_cell (demo_lib ''lightly_train.train'') [] = Inl ?e"
    by (rule library_failures_propagate [where lib = "demo_lib ''lightly_train.train''" and w = "[]",
          THEN conjunct1, THEN mp, OF a1])
  have docs_job_runs_on_docker_change: "yolov12_finetune_cell (demo_lib ''YOLO.train'') ''__main__'' [] = Inl ?e"
    by (rule library_failures_propagate [where lib = "demo_lib ''YOLO.train''" and w = "[]",
          THEN conjunct2, THEN conjunct2, THEN conjunct2, THEN conjunct2,
          THEN conjunct1, THEN mp, OF conjI [OF a2 a3]])
  have invocations_name_known_options: "fine_tune ?T = Inl ?e"
    by (rule library_failures_propagate [THEN conjunct2, THEN conjunct2, THEN conjunct2, THEN conjunct2,
          THEN conjunct2, THEN conjunct2, THEN conjunct2, THEN conjunct2,
          THEN conjunct2, THEN conjunct2, THEN conjunct2, THEN mp, OF H])
  from a1 embeddings_aligned_with_filenames a2 a3 docs_job_runs_on_docker_change b4 ok invocations_name_known_options show ?thesis by (intro conjI)
qed

section \<open>Properties of the documentation workflow\<close>

lemma docker_not_github: "matches (Below ''docker'') f \<Longrightarrow> \<not> matches (Below ''.github'') f"
  by (auto simp: prefix_def)

lemma run_tests_filter_eq:
  "run_tests_filter =
     [Negated (Below ''docker''), Negated (Below ''.github''),
      Path ''.github/workflows/test_documentation.yml'']"
  by (simp add: run_tests_filter_def suffix_def)

text \<open>
  Every path matches the filter when one matching pattern is enough: a path that the
  first pattern rejects lies below \<open>docker\<close>, so not below \<open>.github\<close>, and the second
  pattern accepts it. When all patterns must match, no path does.
\<close>

lemma some_matches_every_file: "filter_matches Some_pattern run_tests_filter f"
  using docker_not_github [of f]
  by (simp add: filter_matches_def run_tests_filter_eq del: matches.simps(2)) blast

lemma every_matches_no_file: "\<not> filter_matches Every_pattern run_tests_filter f"
  by (auto simp: filter_matches_def run_tests_filter_eq prefix_def)

lemma run_tests_any_change: "run_tests changed = (if changed = [] then ''false'' else ''true'')"
  by (cases changed) (simp_all add: run_tests_def predicate_quantifier_def some_matches_every_file)

text \<open>
  C2. A change to \<open>docker/Dockerfile\<close> alone sets the output \<open>run-tests\<close> to
  \<open>'true'\<close>, and the job runs (and passes when its steps exit with 0). The file is
  under \<open>docker/\<close> and is not the workflow file: the gate as the specification words
  it does not hold for this change.
\<close>

theorem docs_job_runs_on_docker_change:
  "run_tests [''docker/Dockerfile''] = ''true'' \<and>
   test_documentation True [''docker/Dockerfile''] [0, 0, 0, 0, 0] = Passed \<and>
   \<not> spec_gate [''docker/Dockerfile'']"
  by (simp add: run_tests_any_change test_documentation_def spec_gate_def spec_relevant_def)

section \<open>Properties of the files on disk\<close>

subsection \<open>Writing files\<close>














subsection \<open>The concrete disk\<close>

lemma demo_disk_eq:
  "demo_disk = [(''my_data_dir/shirts/a.jpg'', Image 1), (''my_data_dir/shoes/b.jpg'', Image 2)]"
  by (simp add: demo_disk_def)

lemma demo_trained_eq:
  "demo_trained =
     [(''my_data_dir/shirts/a.jpg'', Image 1), (''my_data_dir/shoes/b.jpg'', Image 2),
      (''out/my_experiment/checkpoints/epoch=9-step=30.ckpt'', Checkpoint 2 (encoder demo_run)),
      (''out/my_experiment/checkpoints/last.ckpt'', Checkpoint 2 (encoder demo_run)),
      (''out/my_experiment/events.out.tfevents.123.0'', Opaque),
      (''out/my_experiment/exported_models/exported_last.pt'', Opaque),
      (''out/my_experiment/metrics.jsonl'', Opaque),
      (''out/my_experiment/train.log'', Opaque)]"
  by (simp add: demo_trained_def demo_disk_eq write_files_def run_files_def demo_run_def)


subsection \<open>The output directory of a training run\<close>



subsection \<open>The dataset directory\<close>









subsection \<open>The embeddings artifact\<close>

lemma embed_artifact_shape:
  "embed_artifact dim enc images =
     [(''filenames'', Filenames (map fst images)),
      (''embeddings'', Embeddings \<lparr>shape = (length images, dim),
         rows = map (\<lambda>(name, img). map (enc img) [0..<dim]) images\<rparr>)]"
  by (simp add: embed_artifact_def)

lemma zip_names_rows:
  "zip (map fst images) (map (\<lambda>(name, img). g img) images) =
     map (\<lambda>(name, img). (name, g img)) images"
  by (induction images) auto

text \<open>
  C1. After the embedding cell of the quick start has completed, \<open>my_embeddings.pth\<close>
  holds a mapping with exactly two fields, \<open>filenames\<close> and \<open>embeddings\<close>. The array has
  the shape (number of filenames, embedding dimension of the checkpoint), as many rows
  as there are filenames, every row of the embedding dimension, and row \<open>i\<close> is the
  embedding of the image that filename \<open>i\<close> names. The loading cell prints the first five
  filenames and that shape.
\<close>

theorem embeddings_aligned_with_filenames:
  assumes "quick_start_embed_cell (lightly_train run) d = Inr d'"
  shows "\<exists>names t dim enc.
     map_of d ''out/my_experiment/checkpoints/last.ckpt'' = Some (Checkpoint dim enc) \<and>
     map_of d' ''my_embeddings.pth'' =
       Some (Pickle [(''filenames'', Filenames names), (''embeddings'', Embeddings t)]) \<and>
     shape t = (length names, dim) \<and>
     length (rows t) = length names \<and>
     list_all (\<lambda>r. length r = dim) (rows t) \<and>
     zip names (rows t) =
       map (\<lambda>(name, img). (name, map (enc img) [0..<dim])) (images_below d ''my_data_dir'') \<and>
     load_embeddings d' = Inr (take 5 names, shape t)"
proof -
  let ?images = "images_below d ''my_data_dir''"
  from assms have run: "lightly_train_embed quick_start_embed d = Inr d'"
    by (simp add: quick_start_embed_cell_def lightly_train_def quick_start_embed_def
        split: sum.splits)
  have kws: "str_kw quick_start_embed ''out'' = Some ''my_embeddings.pth''"
    "str_kw quick_start_embed ''checkpoint'' = Some ''out/my_experiment/checkpoints/last.ckpt''"
    "str_kw quick_start_embed ''data'' = Some ''my_data_dir''"
    by (simp_all add: str_kw_def kw_def quick_start_embed_def)
  from run obtain dim enc
    where ckpt: "map_of d ''out/my_experiment/checkpoints/last.ckpt'' = Some (Checkpoint dim enc)"
      and d': "d' = AList.update ''my_embeddings.pth'' (Pickle (embed_artifact dim enc ?images)) d"
    by (auto simp: lightly_train_embed_def kws split: option.splits stored.splits)
  let ?names = "map fst ?images"
  let ?t = "\<lparr>shape = (length ?images, dim),
            rows = map (\<lambda>(name, img). map (enc img) [0..<dim]) ?images\<rparr>"
  have saved: "map_of d' ''my_embeddings.pth'' =
      Some (Pickle [(''filenames'', Filenames ?names), (''embeddings'', Embeddings ?t)])"
    unfolding d' by (simp add: update_conv' embed_artifact_shape)
  have "shape ?t = (length ?names, dim)" "length (rows ?t) = length ?names"
    by simp_all
  moreover have "list_all (\<lambda>r. length r = dim) (rows ?t)"
    by (auto simp: list_all_iff)
  moreover have "zip ?names (rows ?t) = map (\<lambda>(name, img). (name, map (enc img) [0..<dim])) ?images"
    by (simp add: zip_names_rows)
  moreover have "load_embeddings d' = Inr (take 5 ?names, shape ?t)"
    by (simp add: load_embeddings_def saved)
  ultimately show ?thesis using ckpt saved by blast
qed

text \<open>
  On the concrete disk after training: two filenames, and an array of shape (2, 2).
\<close>

theorem embeddings_aligned_with_filenames_witness:
  "quick_start_embed_cell (lightly_train demo_run) demo_trained =
     Inr (AList.update ''my_embeddings.pth''
           (Pickle (embed_artifact 2 (encoder demo_run) (images_below demo_trained ''my_data_dir'')))
           demo_trained) \<and>
   images_below demo_trained ''my_data_dir'' = [(''shirts/a.jpg'', 1), (''shoes/b.jpg'', 2)] \<and>
   load_embeddings (AList.update ''my_embeddings.pth''
           (Pickle (embed_artifact 2 (encoder demo_run) (images_below demo_trained ''my_data_dir'')))
           demo_trained) = Inr ([''shirts/a.jpg'', ''shoes/b.jpg''], (2, 2)) \<and>
   (\<exists>names (t :: int tensor2). shape t = (length names, 2) \<and> length (rows t) = length names \<and>
      zip names (rows t) = [(''shirts/a.jpg'', [1, 2 :: int]), (''shoes/b.jpg'', [2, 3])])"
proof -
  let ?d' = "AList.update ''my_embeddings.pth''
           (Pickle (embed_artifact 2 (encoder demo_run) (images_below demo_trained ''my_data_dir'')))
           demo_trained"
  have ckpt: "map_of demo_trained ''out/my_experiment/checkpoints/last.ckpt'' =
      Some (Checkpoint 2 (encoder demo_run))"
    by (simp add: demo_trained_eq)
  have h: "quick_start_embed_cell (lightly_train demo_run) demo_trained = Inr ?d'"
    by (simp add: quick_start_embed_cell_def lightly_train_def lightly_train_embed_def
        quick_start_embed_def str_kw_def kw_def ckpt)
  have imgs: "images_below demo_trained ''my_data_dir'' = [(''shirts/a.jpg'', 1), (''shoes/b.jpg'', 2)]"
    by (simp add: demo_trained_eq images_below_def below_def)
  have loaded: "load_embeddings ?d' = Inr ([''shirts/a.jpg'', ''shoes/b.jpg''], (2, 2))"
    by (simp add: load_embeddings_def update_conv' embed_artifact_def imgs)
  have upt2: "[0..<2] = [0, 1]"
    by (simp add: upt_rec)
  from embeddings_aligned_with_filenames [OF h]
  have "\<exists>names (t :: int tensor2). shape t = (length names, 2) \<and> length (rows t) = length names \<and>
      zip names (rows t) = [(''shirts/a.jpg'', [1, 2 :: int]), (''shoes/b.jpg'', [2, 3])]"
    by (elim exE conjE) (auto simp: ckpt imgs demo_run_def upt2)
  with h imgs loaded show ?thesis by (intro conjI)
qed

end
